theory Spec2Isabelle
  imports Main
begin

section \<open>RSExportElement: the element catalogue and the element type resolver\<close>

text \<open>
  A shallow embedding of \<^verbatim>\<open>slang_rs_export_element.cpp\<close>: the class statics
  \<^verbatim>\<open>Initialized\<close> and \<^verbatim>\<open>ElementInfoMap\<close>, and the functions \<^verbatim>\<open>Init\<close>,
  \<^verbatim>\<open>Create\<close>, \<^verbatim>\<open>CreateFromDecl\<close> and \<^verbatim>\<open>GetElementInfo\<close>. Functions that write the
  statics or \<^verbatim>\<open>stderr\<close> take the state and return it updated.
\<close>

subsection \<open>Type nodes of the host compiler\<close>

text \<open>
  The \<^verbatim>\<open>clang::Type\<close> nodes the file inspects. A \<^verbatim>\<open>TypedefType\<close> carries the name of
  its \<^verbatim>\<open>TypedefNameDecl\<close> and the declaration's underlying type; \<^verbatim>\<open>ParenType\<close> is a
  sugar node that is not a typedef; \<^verbatim>\<open>RecordType\<close> and \<^verbatim>\<open>ConstantArrayType\<close> stand for
  the classes that are neither builtin, pointer nor vector.
\<close>

datatype clang_type =
    BuiltinType string
  | PointerType clang_type
  | ExtVectorType clang_type nat
  | TypedefType string clang_type
  | ParenType clang_type
  | RecordType string
  | ConstantArrayType clang_type nat

datatype TypeClass = Builtin | Pointer | ExtVector | Typedef | Paren | Record | ConstantArray

fun getTypeClass :: "clang_type \<Rightarrow> TypeClass" where
  "getTypeClass (BuiltinType k) = Builtin"
| "getTypeClass (PointerType p) = Pointer"
| "getTypeClass (ExtVectorType e n) = ExtVector"
| "getTypeClass (TypedefType d u) = Typedef"
| "getTypeClass (ParenType i) = Paren"
| "getTypeClass (RecordType r) = Record"
| "getTypeClass (ConstantArrayType e n) = ConstantArray"

fun getTypeClassName :: "clang_type \<Rightarrow> string" where
  "getTypeClassName (BuiltinType k) = ''Builtin''"
| "getTypeClassName (PointerType p) = ''Pointer''"
| "getTypeClassName (ExtVectorType e n) = ''ExtVector''"
| "getTypeClassName (TypedefType d u) = ''Typedef''"
| "getTypeClassName (ParenType i) = ''Paren''"
| "getTypeClassName (RecordType r) = ''Record''"
| "getTypeClassName (ConstantArrayType e n) = ''ConstantArray''"

text \<open>
  Modelled from the spec: the macro \<^verbatim>\<open>GET_CANONICAL_TYPE\<close> of \<^verbatim>\<open>slang_rs_export_type.h\<close>
  and clang's \<^verbatim>\<open>getCanonicalTypeInternal\<close> are not in the source file. The canonical type
  is the type with all aliasing (typedefs and other sugar) removed, at every level.
\<close>

fun GET_CANONICAL_TYPE :: "clang_type \<Rightarrow> clang_type" where
  "GET_CANONICAL_TYPE (BuiltinType k) = BuiltinType k"
| "GET_CANONICAL_TYPE (PointerType p) = PointerType (GET_CANONICAL_TYPE p)"
| "GET_CANONICAL_TYPE (ExtVectorType e n) = ExtVectorType (GET_CANONICAL_TYPE e) n"
| "GET_CANONICAL_TYPE (TypedefType d u) = GET_CANONICAL_TYPE u"
| "GET_CANONICAL_TYPE (ParenType i) = GET_CANONICAL_TYPE i"
| "GET_CANONICAL_TYPE (RecordType r) = RecordType r"
| "GET_CANONICAL_TYPE (ConstantArrayType e n) = ConstantArrayType (GET_CANONICAL_TYPE e) n"

subsection \<open>Element descriptors, export types, collaborators\<close>

text \<open>
  \<^verbatim>\<open>ElementInfo\<close> as \<^verbatim>\<open>Init\<close> fills it. The enumeration of data types is declared outside
  the file and is the type parameter \<open>'dt\<close>; \<^verbatim>\<open>vsize\<close> is only compared, never computed
  with, so it is a natural number.
\<close>

record 'dt ElementInfo =
  type :: 'dt
  normalized :: bool
  vsize :: nat

text \<open>
  The export types as far as \<^verbatim>\<open>Create\<close> reads them: the getters \<^verbatim>\<open>getType\<close> and
  \<^verbatim>\<open>getNumElement\<close>. A vector export type extends a primitive one, as the C++ class does.
  \<open>'o\<close> is whatever else the generic builder \<^verbatim>\<open>RSExportType::Create\<close> produces.
\<close>

record 'dt RSExportPrimitiveType =
  getName :: string
  getType :: 'dt
  isNormalized :: bool

record 'dt RSExportVectorType = "'dt RSExportPrimitiveType" +
  getNumElement :: nat

datatype ('dt, 'o) RSExportType =
    ExportPrimitive "'dt RSExportPrimitiveType"
  | ExportVector "'dt RSExportVectorType"
  | ExportOther 'o

text \<open>
  What the file calls and does not define, taken as parameters. A function that returns a
  pointer returns an option, \<open>None\<close> for \<^verbatim>\<open>NULL\<close>.
  \<^item> \<open>RSDataElementEnums\<close>: the rows \<^verbatim>\<open>ENUM_RS_DATA_ELEMENT(_name, _dt, _norm, _vsize)\<close> of
    \<^verbatim>\<open>RSDataElementEnums.inc\<close>, in file order.
  \<^item> \<open>NormalizeType\<close>: \<^verbatim>\<open>RSExportType::NormalizeType(T, TypeName, ...)\<close>; \<open>None\<close> when it
    returns false, else the type node it leaves in \<^verbatim>\<open>T\<close> and the name it stores in
    \<^verbatim>\<open>TypeName\<close> (a collaborator that leaves \<^verbatim>\<open>T\<close> alone returns its argument).
  \<^item> \<open>PrimitiveCreate\<close>, \<open>VectorCreate\<close>: \<^verbatim>\<open>RSExportPrimitiveType::Create\<close> and
    \<^verbatim>\<open>RSExportVectorType::Create\<close>.
  \<^item> \<open>ExportTypeCreate\<close>: the generic builder \<^verbatim>\<open>RSExportType::Create(Context, T)\<close>.
  \<^item> \<open>GetTypeOfDecl\<close>: \<^verbatim>\<open>RSExportType::GetTypeOfDecl\<close>.
  The \<^verbatim>\<open>RSContext\<close> argument is part of these functions.
\<close>

record ('decl, 'dt, 'o) externals =
  RSDataElementEnums :: "(string \<times> 'dt \<times> bool \<times> nat) list"
  NormalizeType :: "clang_type \<Rightarrow> (clang_type \<times> string) option"
  PrimitiveCreate :: "clang_type \<Rightarrow> string \<Rightarrow> bool \<Rightarrow> 'dt RSExportPrimitiveType option"
  VectorCreate :: "clang_type \<Rightarrow> string \<Rightarrow> bool \<Rightarrow> 'dt RSExportVectorType option"
  ExportTypeCreate :: "clang_type \<Rightarrow> ('dt, 'o) RSExportType option"
  GetTypeOfDecl :: "'decl \<Rightarrow> clang_type"

subsection \<open>State and failures\<close>

text \<open>
  The statics \<^verbatim>\<open>Initialized\<close> and \<^verbatim>\<open>ElementInfoMap\<close> (an \<^verbatim>\<open>llvm::StringMap\<close>), and the
  lines written to \<^verbatim>\<open>stderr\<close>.
\<close>

record 'dt state =
  Initialized :: bool
  ElementInfoMap :: "string \<rightharpoonup> 'dt ElementInfo"
  stderr :: "string list"

definition initial_state :: "'dt state" where
  "initial_state = \<lparr>Initialized = False, ElementInfoMap = Map.empty, stderr = []\<rparr>"

text \<open>
  How a call ends when it does not return: a failed assertion, with its message, or a
  read through a \<^verbatim>\<open>NULL\<close> pointer.
\<close>

datatype fatal = CatalogueInconsistency string | NullDereference

text \<open>
  Modelled from the spec: the macro \<^verbatim>\<open>slangAssert\<close> of \<^verbatim>\<open>slang_assert.h\<close> is not in the
  source file. A failed assertion is fatal and is signalled as \<open>CatalogueInconsistency\<close>;
  \<open>rest\<close> is what follows the assertion.
\<close>

definition slangAssert :: "bool \<Rightarrow> string \<Rightarrow> fatal + 'a \<Rightarrow> fatal + 'a" where
  "slangAssert v msg rest = (if v then rest else Inl (CatalogueInconsistency msg))"

text \<open>
  The result of a function that returns \<^verbatim>\<open>RSExportType *\<close>: \<open>Inl\<close> when the process
  is aborted, \<open>Inr None\<close> for \<^verbatim>\<open>NULL\<close> (not exportable), \<open>Inr (Some ET)\<close> for an export type.
\<close>

type_synonym ('dt, 'o) result = "fatal + ('dt, 'o) RSExportType option"

subsection \<open>Init\<close>

text \<open>
  \<^verbatim>\<open>ElementInfoMap.insert\<close>: llvm's \<^verbatim>\<open>StringMap::insert\<close> adds the entry when the map has
  none for the key and leaves the map alone when the key is already there.
\<close>

definition StringMap_insert :: "string \<Rightarrow> 'v \<Rightarrow> (string \<rightharpoonup> 'v) \<Rightarrow> (string \<rightharpoonup> 'v)" where
  "StringMap_insert Name EI m = (case m Name of None \<Rightarrow> m(Name \<mapsto> EI) | Some old \<Rightarrow> m)"

text \<open>One expansion of \<^verbatim>\<open>ENUM_RS_DATA_ELEMENT\<close>.\<close>

definition ENUM_RS_DATA_ELEMENT ::
  "string \<times> 'dt \<times> bool \<times> nat \<Rightarrow> (string \<rightharpoonup> 'dt ElementInfo) \<Rightarrow> (string \<rightharpoonup> 'dt ElementInfo)" where
  "ENUM_RS_DATA_ELEMENT row m =
     (case row of (name, dt, norm, vs) \<Rightarrow>
        StringMap_insert name \<lparr>type = dt, normalized = norm, vsize = vs\<rparr> m)"

definition Init :: "('decl, 'dt, 'o) externals \<Rightarrow> 'dt state \<Rightarrow> 'dt state" where
  "Init E s =
     (if \<not> Initialized s
      then s\<lparr>ElementInfoMap := fold ENUM_RS_DATA_ELEMENT (RSDataElementEnums E) (ElementInfoMap s),
             Initialized := True\<rparr>
      else s)"

subsection \<open>GetElementInfo\<close>

definition GetElementInfo ::
  "('decl, 'dt, 'o) externals \<Rightarrow> string \<Rightarrow> 'dt state \<Rightarrow> 'dt ElementInfo option \<times> 'dt state" where
  "GetElementInfo E Name s =
     (let s1 = (if \<not> Initialized s then Init E s else s)
      in (ElementInfoMap s1 Name, s1))"

subsection \<open>Create\<close>

definition not_exportable_message :: "clang_type \<Rightarrow> string" where
  "not_exportable_message T =
     ''RSExportElement::Create : type '' @ [CHR 0x27] @ getTypeClassName T @ [CHR 0x27] @
     '' is not exportable'' @ [CHR 0x0A]"

text \<open>The case \<^verbatim>\<open>Builtin\<close>, \<^verbatim>\<open>Pointer\<close> of the switch.\<close>

definition Create_primitive ::
  "('decl, 'dt, 'o) externals \<Rightarrow> clang_type \<Rightarrow> string \<Rightarrow> 'dt ElementInfo \<Rightarrow> ('dt, 'o) result" where
  "Create_primitive E T TypeName EI =
     slangAssert (vsize EI = 1) ''Element not a primitive class (please check your macro)''
       (case PrimitiveCreate E T TypeName (normalized EI) of
          None \<Rightarrow> Inl NullDereference
        | Some EPT \<Rightarrow>
            slangAssert (type EI = getType EPT) ''Element has unexpected type''
              (Inr (Some (ExportPrimitive EPT))))"

text \<open>The case \<^verbatim>\<open>ExtVector\<close> of the switch.\<close>

definition Create_vector ::
  "('decl, 'dt, 'o) externals \<Rightarrow> clang_type \<Rightarrow> string \<Rightarrow> 'dt ElementInfo \<Rightarrow> ('dt, 'o) result" where
  "Create_vector E T TypeName EI =
     slangAssert (1 < vsize EI) ''Element not a vector class (please check your macro)''
       (case VectorCreate E (GET_CANONICAL_TYPE T) TypeName (normalized EI) of
          None \<Rightarrow> Inl NullDereference
        | Some EVT \<Rightarrow>
            slangAssert (type EI = getType EVT) ''Element has unexpected type''
              (slangAssert (vsize EI = getNumElement EVT) ''Element has unexpected size of vector''
                 (Inr (Some (ExportVector EVT)))))"

definition Create ::
  "('decl, 'dt, 'o) externals \<Rightarrow> clang_type \<Rightarrow> 'dt ElementInfo option \<Rightarrow> 'dt state
     \<Rightarrow> ('dt, 'o) result \<times> 'dt state" where
  "Create E T EIp s =
     (let s1 = (if \<not> Initialized s then Init E s else s) in
      case EIp of
        None \<Rightarrow> (slangAssert False ''Element info not found'' (Inr None), s1)
      | Some EI \<Rightarrow>
          (case NormalizeType E T of
             None \<Rightarrow> (Inr None, s1)
           | Some (T', TypeName) \<Rightarrow>
               (case getTypeClass T' of
                  Builtin \<Rightarrow> (Create_primitive E T' TypeName EI, s1)
                | Pointer \<Rightarrow> (Create_primitive E T' TypeName EI, s1)
                | ExtVector \<Rightarrow> (Create_vector E T' TypeName EI, s1)
                | _ \<Rightarrow> (Inr None, s1\<lparr>stderr := stderr s1 @ [not_exportable_message T']\<rparr>))))"

subsection \<open>CreateFromDecl\<close>

text \<open>
  The loop \<^verbatim>\<open>while (T != CT)\<close>: it returns the \<^verbatim>\<open>T\<close> and \<^verbatim>\<open>EI\<close> it leaves behind. The
  recursive call is on the underlying type of the typedef's declaration.
\<close>

fun typedef_chain ::
  "('decl, 'dt, 'o) externals \<Rightarrow> clang_type \<Rightarrow> clang_type \<Rightarrow> 'dt state
     \<Rightarrow> (clang_type \<times> 'dt ElementInfo option) \<times> 'dt state" where
  "typedef_chain E T CT s =
     (if T \<noteq> CT
      then (case T of
              TypedefType TD_name TD_underlying \<Rightarrow>
                (case GetElementInfo E TD_name s of
                   (Some EI, s') \<Rightarrow> ((T, Some EI), s')
                 | (None, s') \<Rightarrow> typedef_chain E TD_underlying CT s')
            | _ \<Rightarrow> ((T, None), s))
      else ((T, None), s))"

definition CreateFromDecl ::
  "('decl, 'dt, 'o) externals \<Rightarrow> 'decl \<Rightarrow> 'dt state \<Rightarrow> ('dt, 'o) result \<times> 'dt state" where
  "CreateFromDecl E DD s =
     (let T = GetTypeOfDecl E DD;
          CT = GET_CANONICAL_TYPE T
      in if getTypeClass CT \<noteq> Builtin \<and> getTypeClass CT \<noteq> ExtVector
         then (Inr (ExportTypeCreate E T), s)
         else case typedef_chain E T CT s of
                ((T', None), s') \<Rightarrow> (Inr (ExportTypeCreate E T'), s')
              | ((T', Some EI), s') \<Rightarrow> Create E T' (Some EI) s')"

subsection \<open>Vocabulary of the properties\<close>

text \<open>
  The catalogue entry a row of the static table stands for, and the table as a list of
  entries. \<open>map_of\<close> of that list gives each name the entry of its first row.
\<close>

definition element_of_row :: "string \<times> 'dt \<times> bool \<times> nat \<Rightarrow> string \<times> 'dt ElementInfo" where
  "element_of_row row =
     (case row of (name, dt, norm, vs) \<Rightarrow> (name, \<lparr>type = dt, normalized = norm, vsize = vs\<rparr>))"

definition static_table :: "('decl, 'dt, 'o) externals \<Rightarrow> (string \<times> 'dt ElementInfo) list" where
  "static_table E = map element_of_row (RSDataElementEnums E)"

text \<open>
  The alias layers of a type, outermost first: each typedef node with its name, down to
  the first node that is not a typedef. \<open>strip_typedefs\<close> is that first node.
\<close>

fun typedef_layers :: "clang_type \<Rightarrow> (string \<times> clang_type) list" where
  "typedef_layers (TypedefType d u) = (d, TypedefType d u) # typedef_layers u"
| "typedef_layers T = []"

fun strip_typedefs :: "clang_type \<Rightarrow> clang_type" where
  "strip_typedefs (TypedefType d u) = strip_typedefs u"
| "strip_typedefs T = T"

subsection \<open>A small instance of the collaborators\<close>

text \<open>
  Concrete collaborators on which the theorems are exercised. Data types are named by the
  builtin kind they hold. The normalizer canonicalizes the node and reports the name the
  type was written with; it rejects \<^verbatim>\<open>long double\<close>. The generic builder wraps the node it
  is given, so its argument can be read off its result.
\<close>

fun spelled_name :: "clang_type \<Rightarrow> string" where
  "spelled_name (BuiltinType k) = k"
| "spelled_name (PointerType p) = spelled_name p @ ''*''"
| "spelled_name (ExtVectorType e n) = spelled_name e"
| "spelled_name (TypedefType d u) = d"
| "spelled_name (ParenType i) = spelled_name i"
| "spelled_name (RecordType r) = r"
| "spelled_name (ConstantArrayType e n) = spelled_name e @ ''[]''"

definition example_NormalizeType :: "clang_type \<Rightarrow> (clang_type \<times> string) option" where
  "example_NormalizeType T =
     (if GET_CANONICAL_TYPE T = BuiltinType ''long double'' then None
      else Some (GET_CANONICAL_TYPE T, spelled_name T))"

definition example_PrimitiveCreate ::
  "clang_type \<Rightarrow> string \<Rightarrow> bool \<Rightarrow> string RSExportPrimitiveType option" where
  "example_PrimitiveCreate T TypeName Normalized =
     (case T of
        BuiltinType k \<Rightarrow> Some \<lparr>getName = TypeName, getType = k, isNormalized = Normalized\<rparr>
      | _ \<Rightarrow> None)"

definition example_VectorCreate ::
  "clang_type \<Rightarrow> string \<Rightarrow> bool \<Rightarrow> string RSExportVectorType option" where
  "example_VectorCreate T TypeName Normalized =
     (case T of
        ExtVectorType (BuiltinType k) n \<Rightarrow>
          Some \<lparr>getName = TypeName, getType = k, isNormalized = Normalized, getNumElement = n\<rparr>
      | _ \<Rightarrow> None)"

definition example_externals :: "(clang_type, string, clang_type) externals" where
  "example_externals =
     \<lparr>RSDataElementEnums =
        [(''rs_uchar'', ''unsigned char'', True, 1),
         (''rs_uchar4'', ''unsigned char'', True, 4),
         (''rs_pixel'', ''unsigned char'', False, 1)],
      NormalizeType = example_NormalizeType,
      PrimitiveCreate = example_PrimitiveCreate,
      VectorCreate = example_VectorCreate,
      ExportTypeCreate = (\<lambda>T. Some (ExportOther T)),
      GetTypeOfDecl = (\<lambda>DD. DD)\<rparr>"

section \<open>Properties\<close>

subsection \<open>Initialization and lookup\<close>

declare typedef_chain.simps [simp del]

lemma ENUM_RS_DATA_ELEMENT_eq:
  "ENUM_RS_DATA_ELEMENT row m = map_of [element_of_row row] ++ m"
  by (cases row)
    (auto simp: ENUM_RS_DATA_ELEMENT_def StringMap_insert_def element_of_row_def map_add_def
      fun_eq_iff split: option.splits)

lemma fold_ENUM_RS_DATA_ELEMENT:
  "fold ENUM_RS_DATA_ELEMENT rows m = map_of (map element_of_row rows) ++ m"
proof (induction rows arbitrary: m)
  case Nil
  show ?case by simp
next
  case (Cons row rows)
  have "fold ENUM_RS_DATA_ELEMENT (row # rows) m =
        map_of (map element_of_row rows) ++ (map_of [element_of_row row] ++ m)"
    by (simp add: Cons.IH ENUM_RS_DATA_ELEMENT_eq)
  also have "\<dots> = map_of (map element_of_row (row # rows)) ++ m"
    by (cases "element_of_row row") (auto simp: map_add_def fun_eq_iff split: option.splits)
  finally show ?case .
qed

lemma Initialized_Init [simp]: "Initialized (Init E s)"
  by (simp add: Init_def)

lemma Init_when_Initialized: "Initialized s \<Longrightarrow> Init E s = s"
  by (simp add: Init_def)

lemma Init_Init [simp]: "Init E (Init E s) = Init E s"
  by (simp add: Init_when_Initialized)

lemma ensure_Init [simp]: "(if \<not> Initialized s then Init E s else s) = Init E s"
  by (simp add: Init_def)

lemma stderr_Init [simp]: "stderr (Init E s) = stderr s"
  by (simp add: Init_def)

lemma ElementInfoMap_Init_initial:
  "ElementInfoMap (Init E initial_state) = map_of (static_table E)"
  by (simp add: Init_def initial_state_def fold_ENUM_RS_DATA_ELEMENT static_table_def)

lemma GetElementInfo_eq: "GetElementInfo E Name s = (ElementInfoMap (Init E s) Name, Init E s)"
  by (simp add: GetElementInfo_def Let_def)

lemma Create_Init: "Create E T EIp (Init E s) = Create E T EIp s"
  by (simp add: Create_def Let_def)

lemma funpow_Init: "(Init E ^^ Suc n) s = Init E s"
  by (induction n) simp_all

lemma dom_static_table: "dom (map_of (static_table E)) = fst ` set (RSDataElementEnums E)"
  by (force simp: dom_map_of_conv_image_fst static_table_def element_of_row_def image_image
      split: prod.splits)


text \<open>
  Claim C9. \<^verbatim>\<open>Init\<close> is idempotent: a call on a state that \<^verbatim>\<open>Init\<close> has produced changes
  nothing, so any number of calls (at least one) from the program's initial state gives the
  state of the first call. In that state the flag is set and the map is the static table
  read as a map: its keys are exactly the names of the table's rows, one entry per name,
  and the entry of a name is the complete descriptor of that name's first row.
\<close>

theorem Init_idempotent:
  "Init E (Init E s) = Init E s
   \<and> (Init E ^^ Suc n) initial_state = Init E initial_state
   \<and> Initialized (Init E initial_state)
   \<and> ElementInfoMap ((Init E ^^ Suc n) initial_state) = map_of (static_table E)
   \<and> dom (ElementInfoMap ((Init E ^^ Suc n) initial_state)) = fst ` set (RSDataElementEnums E)"
  by (simp only: funpow_Init Init_Init Initialized_Init ElementInfoMap_Init_initial dom_static_table)

theorem Init_idempotent_witness:
  "(Init example_externals ^^ 3) initial_state = Init example_externals initial_state
   \<and> ElementInfoMap ((Init example_externals ^^ 3) initial_state) ''rs_uchar4''
       = Some \<lparr>type = ''unsigned char'', normalized = True, vsize = 4\<rparr>
   \<and> ElementInfoMap ((Init example_externals ^^ 3) initial_state) ''rs_float'' = None
   \<and> dom (ElementInfoMap ((Init example_externals ^^ 3) initial_state))
       = {''rs_uchar'', ''rs_uchar4'', ''rs_pixel''}"
  using Init_idempotent [of example_externals initial_state 2]
  by (simp add: numeral_3_eq_3 static_table_def element_of_row_def example_externals_def
      insert_commute)



subsection \<open>Create\<close>

lemma Create_switch:
  "NormalizeType E T = Some (T', TypeName) \<Longrightarrow>
   Create E T (Some EI) s =
     (case getTypeClass T' of
        Builtin \<Rightarrow> (Create_primitive E T' TypeName EI, Init E s)
      | Pointer \<Rightarrow> (Create_primitive E T' TypeName EI, Init E s)
      | ExtVector \<Rightarrow> (Create_vector E T' TypeName EI, Init E s)
      | _ \<Rightarrow> (Inr None, (Init E s)\<lparr>stderr := stderr s @ [not_exportable_message T']\<rparr>))"
  by (simp add: Create_def Let_def split: TypeClass.splits)

text \<open>
  Claim C7. When \<^verbatim>\<open>NormalizeType\<close> fails on the type node, \<^verbatim>\<open>Create\<close> (called with a
  descriptor) returns \<^verbatim>\<open>NULL\<close>, the not-exportable result. Nothing but the
  initialization has happened by then: the state is that of \<^verbatim>\<open>Init\<close>, no line is written
  to \<^verbatim>\<open>stderr\<close>, and the result does not depend on the type's class, on the descriptor or
  on any of the builders.
\<close>

theorem Create_normalization_failure:
  assumes "NormalizeType E T = None"
  shows "Create E T (Some EI) s = (Inr None, Init E s)
         \<and> stderr (snd (Create E T (Some EI) s)) = stderr s"
  using assms by (simp add: Create_def Let_def)

theorem Create_normalization_failure_witness:
  "NormalizeType example_externals (TypedefType ''rs_uchar'' (BuiltinType ''long double'')) = None
   \<and> fst (Create example_externals (TypedefType ''rs_uchar'' (BuiltinType ''long double''))
        (Some \<lparr>type = ''unsigned char'', normalized = True, vsize = 1\<rparr>) initial_state) = Inr None
   \<and> stderr (snd (Create example_externals (TypedefType ''rs_uchar'' (BuiltinType ''long double''))
        (Some \<lparr>type = ''unsigned char'', normalized = True, vsize = 1\<rparr>) initial_state)) = []"
proof -
  have h: "NormalizeType example_externals (TypedefType ''rs_uchar'' (BuiltinType ''long double'')) = None"
    by (simp add: example_externals_def example_NormalizeType_def)
  show ?thesis
    using h Create_normalization_failure [OF h,
        of "\<lparr>type = ''unsigned char'', normalized = True, vsize = 1\<rparr>" initial_state]
    by (simp add: initial_state_def)
qed

text \<open>
  Claim C4. When the switch of \<^verbatim>\<open>Create\<close> sees a type node of class \<^verbatim>\<open>Builtin\<close> or
  \<^verbatim>\<open>Pointer\<close> (the node \<^verbatim>\<open>NormalizeType\<close> has accepted) and the descriptor's \<^verbatim>\<open>vsize\<close>
  is greater than 1, the call ends in the fatal \<open>CatalogueInconsistency\<close> of the first
  assertion. That is neither \<^verbatim>\<open>NULL\<close> nor a primitive export type, whatever the primitive
  builder would have built.
\<close>

theorem Create_scalar_with_vector_descriptor:
  assumes "NormalizeType E T = Some (T', TypeName)"
    and "getTypeClass T' = Builtin \<or> getTypeClass T' = Pointer"
    and "1 < vsize EI"
  shows "fst (Create E T (Some EI) s)
           = Inl (CatalogueInconsistency ''Element not a primitive class (please check your macro)'')
         \<and> fst (Create E T (Some EI) s) \<noteq> Inr None
         \<and> fst (Create E T (Some EI) s) \<noteq> Inr (Some (ExportPrimitive EPT))"
  using assms by (auto simp: Create_switch Create_primitive_def slangAssert_def)

theorem Create_scalar_with_vector_descriptor_witness:
  "NormalizeType example_externals (TypedefType ''rs_uchar4'' (BuiltinType ''unsigned char''))
     = Some (BuiltinType ''unsigned char'', ''rs_uchar4'')
   \<and> getTypeClass (BuiltinType ''unsigned char'') = Builtin
   \<and> fst (Create example_externals (TypedefType ''rs_uchar4'' (BuiltinType ''unsigned char''))
        (Some \<lparr>type = ''unsigned char'', normalized = True, vsize = 4\<rparr>) initial_state)
     = Inl (CatalogueInconsistency ''Element not a primitive class (please check your macro)'')"
proof -
  have n: "NormalizeType example_externals (TypedefType ''rs_uchar4'' (BuiltinType ''unsigned char''))
             = Some (BuiltinType ''unsigned char'', ''rs_uchar4'')"
    by (simp add: example_externals_def example_NormalizeType_def)
  have c: "getTypeClass (BuiltinType ''unsigned char'') = Builtin
             \<or> getTypeClass (BuiltinType ''unsigned char'') = Pointer"
    by simp
  have v: "1 < vsize \<lparr>type = ''unsigned char'', normalized = True, vsize = 4\<rparr>"
    by simp
  show ?thesis
    using n Create_scalar_with_vector_descriptor [OF n c v, of initial_state]
    by simp
qed

text \<open>
  Claim C5. When the switch of \<^verbatim>\<open>Create\<close> sees a type node of class \<^verbatim>\<open>ExtVector\<close> and the
  descriptor's \<^verbatim>\<open>vsize\<close> is greater than 1: every export type the call returns is the
  vector export type that \<^verbatim>\<open>RSExportVectorType::Create\<close> built from the canonical type of
  the node, and its data type and its number of elements equal the descriptor's \<^verbatim>\<open>type\<close>
  and \<^verbatim>\<open>vsize\<close>; a built vector type that violates either equality makes the call end in
  \<open>CatalogueInconsistency\<close>, one that satisfies both is returned; and the call never
  returns \<^verbatim>\<open>NULL\<close>.
\<close>

theorem Create_vector_verified:
  assumes "NormalizeType E T = Some (T', TypeName)"
    and "getTypeClass T' = ExtVector"
    and "1 < vsize EI"
  shows "(\<forall>ET. fst (Create E T (Some EI) s) = Inr (Some ET) \<longrightarrow>
            (\<exists>EVT. VectorCreate E (GET_CANONICAL_TYPE T') TypeName (normalized EI) = Some EVT
                  \<and> ET = ExportVector EVT
                  \<and> getType EVT = type EI \<and> getNumElement EVT = vsize EI))
         \<and> (\<forall>EVT. VectorCreate E (GET_CANONICAL_TYPE T') TypeName (normalized EI) = Some EVT \<longrightarrow>
              (if getType EVT = type EI \<and> getNumElement EVT = vsize EI
               then fst (Create E T (Some EI) s) = Inr (Some (ExportVector EVT))
               else \<exists>msg. fst (Create E T (Some EI) s) = Inl (CatalogueInconsistency msg)))
         \<and> fst (Create E T (Some EI) s) \<noteq> Inr None"
  using assms
  by (auto simp: Create_switch Create_vector_def slangAssert_def split: option.splits)

theorem Create_vector_verified_witness:
  "fst (Create example_externals
         (TypedefType ''rs_uchar4'' (ExtVectorType (TypedefType ''u8'' (BuiltinType ''unsigned char'')) 4))
         (Some \<lparr>type = ''unsigned char'', normalized = True, vsize = 4\<rparr>) initial_state)
     = Inr (Some (ExportVector \<lparr>getName = ''rs_uchar4'', getType = ''unsigned char'',
                                 isNormalized = True, getNumElement = 4\<rparr>))
   \<and> (\<exists>msg. fst (Create example_externals
         (TypedefType ''rs_uchar4'' (ExtVectorType (TypedefType ''u8'' (BuiltinType ''unsigned char'')) 4))
         (Some \<lparr>type = ''unsigned char'', normalized = True, vsize = 3\<rparr>) initial_state)
     = Inl (CatalogueInconsistency msg))"
proof -
  let ?T = "TypedefType ''rs_uchar4'' (ExtVectorType (TypedefType ''u8'' (BuiltinType ''unsigned char'')) 4)"
  let ?T' = "ExtVectorType (BuiltinType ''unsigned char'') 4"
  have n: "NormalizeType example_externals ?T = Some (?T', ''rs_uchar4'')"
    by (simp add: example_externals_def example_NormalizeType_def)
  have c: "getTypeClass ?T' = ExtVector"
    by simp
  have b: "VectorCreate example_externals (GET_CANONICAL_TYPE ?T') ''rs_uchar4'' True
             = Some \<lparr>getName = ''rs_uchar4'', getType = ''unsigned char'',
                     isNormalized = True, getNumElement = 4\<rparr>"
    by (simp add: example_externals_def example_VectorCreate_def)
  have v4: "1 < vsize \<lparr>type = ''unsigned char'', normalized = True, vsize = 4\<rparr>"
    by simp
  have b4: "VectorCreate example_externals (GET_CANONICAL_TYPE ?T') ''rs_uchar4''
              (normalized \<lparr>type = ''unsigned char'', normalized = True, vsize = 4\<rparr>)
             = Some \<lparr>getName = ''rs_uchar4'', getType = ''unsigned char'',
                     isNormalized = True, getNumElement = 4\<rparr>"
    using b by simp
  have ok: "fst (Create example_externals ?T
         (Some \<lparr>type = ''unsigned char'', normalized = True, vsize = 4\<rparr>) initial_state)
     = Inr (Some (ExportVector \<lparr>getName = ''rs_uchar4'', getType = ''unsigned char'',
                                 isNormalized = True, getNumElement = 4\<rparr>))"
    using Create_vector_verified [OF n c v4, of initial_state, THEN conjunct2, THEN conjunct1,
        rule_format, OF b4]
    by simp
  have v3: "1 < vsize \<lparr>type = ''unsigned char'', normalized = True, vsize = 3\<rparr>"
    by simp
  have b3: "VectorCreate example_externals (GET_CANONICAL_TYPE ?T') ''rs_uchar4''
              (normalized \<lparr>type = ''unsigned char'', normalized = True, vsize = 3\<rparr>)
             = Some \<lparr>getName = ''rs_uchar4'', getType = ''unsigned char'',
                     isNormalized = True, getNumElement = 4\<rparr>"
    using b by simp
  have bad: "\<exists>msg. fst (Create example_externals ?T
         (Some \<lparr>type = ''unsigned char'', normalized = True, vsize = 3\<rparr>) initial_state)
     = Inl (CatalogueInconsistency msg)"
    using Create_vector_verified [OF n c v3, of initial_state, THEN conjunct2, THEN conjunct1,
        rule_format, OF b3]
    by simp
  from ok bad show ?thesis by simp
qed

text \<open>
  Claim C8. When the switch of \<^verbatim>\<open>Create\<close> sees a type node whose class is none of
  \<^verbatim>\<open>Builtin\<close>, \<^verbatim>\<open>Pointer\<close> and \<^verbatim>\<open>ExtVector\<close>, the call returns \<^verbatim>\<open>NULL\<close>, never an export
  type, and appends to \<^verbatim>\<open>stderr\<close> one line that names the class of the node.
\<close>

theorem Create_unsupported_class:
  assumes "NormalizeType E T = Some (T', TypeName)"
    and "getTypeClass T' \<noteq> Builtin" and "getTypeClass T' \<noteq> Pointer"
    and "getTypeClass T' \<noteq> ExtVector"
  shows "fst (Create E T (Some EI) s) = Inr None
         \<and> stderr (snd (Create E T (Some EI) s))
             = stderr s @ [''RSExportElement::Create : type '' @ [CHR 0x27] @ getTypeClassName T'
                            @ [CHR 0x27] @ '' is not exportable'' @ [CHR 0x0A]]"
  using assms
  by (simp add: Create_switch not_exportable_message_def split: TypeClass.splits)

theorem Create_unsupported_class_witness:
  "fst (Create example_externals (TypedefType ''rs_uchar'' (RecordType ''S''))
         (Some \<lparr>type = ''unsigned char'', normalized = True, vsize = 1\<rparr>) initial_state) = Inr None
   \<and> stderr (snd (Create example_externals (TypedefType ''rs_uchar'' (RecordType ''S''))
         (Some \<lparr>type = ''unsigned char'', normalized = True, vsize = 1\<rparr>) initial_state))
       = [''RSExportElement::Create : type '' @ [CHR 0x27] @ ''Record'' @ [CHR 0x27]
            @ '' is not exportable'' @ [CHR 0x0A]]"
proof -
  have n: "NormalizeType example_externals (TypedefType ''rs_uchar'' (RecordType ''S''))
             = Some (RecordType ''S'', ''rs_uchar'')"
    by (simp add: example_externals_def example_NormalizeType_def)
  show ?thesis
    using Create_unsupported_class [OF n, of
        "\<lparr>type = ''unsigned char'', normalized = True, vsize = 1\<rparr>" initial_state]
    by (simp add: initial_state_def)
qed

subsection \<open>The walk along the typedef chain\<close>

lemma getTypeClass_canonical: "getTypeClass (GET_CANONICAL_TYPE T) \<noteq> Typedef"
  by (induction T) simp_all

lemma canonical_not_typedef: "TypedefType d u \<noteq> GET_CANONICAL_TYPE T"
  using getTypeClass_canonical [of T] by (metis getTypeClass.simps(4))

lemma typedef_chain_eq:
  "getTypeClass CT \<noteq> Typedef \<Longrightarrow>
   typedef_chain E T CT s =
     (case find (\<lambda>(d, L). ElementInfoMap (Init E s) d \<noteq> None) (typedef_layers T) of
        Some (d, L) \<Rightarrow> ((L, ElementInfoMap (Init E s) d), Init E s)
      | None \<Rightarrow> ((strip_typedefs T, None), if typedef_layers T = [] then s else Init E s))"
proof (induction T arbitrary: s)
  case (TypedefType d u)
  have ne: "TypedefType d u \<noteq> CT"
    using TypedefType.prems by auto
  show ?case
    using ne TypedefType.IH [OF TypedefType.prems, of "Init E s"]
    by (subst typedef_chain.simps) (auto simp: GetElementInfo_eq split: option.splits)
qed (subst typedef_chain.simps, simp)+

subsection \<open>CreateFromDecl\<close>

text \<open>
  What \<^verbatim>\<open>CreateFromDecl\<close> does when the canonical type is of class \<^verbatim>\<open>Builtin\<close> or
  \<^verbatim>\<open>ExtVector\<close>, with the loop replaced by a search along the typedef layers in the
  initialized catalogue.
\<close>

lemma CreateFromDecl_walk:
  assumes "getTypeClass (GET_CANONICAL_TYPE (GetTypeOfDecl E DD)) = Builtin
           \<or> getTypeClass (GET_CANONICAL_TYPE (GetTypeOfDecl E DD)) = ExtVector"
  shows "CreateFromDecl E DD s =
     (case find (\<lambda>(d, L). ElementInfoMap (Init E s) d \<noteq> None)
             (typedef_layers (GetTypeOfDecl E DD)) of
        Some (d, L) \<Rightarrow> Create E L (ElementInfoMap (Init E s) d) s
      | None \<Rightarrow> (Inr (ExportTypeCreate E (strip_typedefs (GetTypeOfDecl E DD))),
                 if typedef_layers (GetTypeOfDecl E DD) = [] then s else Init E s))"
proof (cases "find (\<lambda>(d, L). ElementInfoMap (Init E s) d \<noteq> None)
             (typedef_layers (GetTypeOfDecl E DD))")
  case None
  with assms show ?thesis
    by (auto simp: CreateFromDecl_def Let_def typedef_chain_eq [OF getTypeClass_canonical])
next
  case (Some p)
  obtain d L where p: "p = (d, L)" by (cases p)
  from Some p have "ElementInfoMap (Init E s) d \<noteq> None"
    by (auto simp: find_Some_iff)
  then obtain EI where EI: "ElementInfoMap (Init E s) d = Some EI" by auto
  from assms Some p EI show ?thesis
    by (auto simp: CreateFromDecl_def Let_def typedef_chain_eq [OF getTypeClass_canonical]
        Create_Init)
qed

text \<open>The catalogue and the collaborators of the small instance.\<close>

lemma example_catalogue:
  "ElementInfoMap (Init example_externals initial_state) =
     map_of [(''rs_uchar'', \<lparr>type = ''unsigned char'', normalized = True, vsize = 1\<rparr>),
             (''rs_uchar4'', \<lparr>type = ''unsigned char'', normalized = True, vsize = 4\<rparr>),
             (''rs_pixel'', \<lparr>type = ''unsigned char'', normalized = False, vsize = 1\<rparr>)]"
  by (simp add: ElementInfoMap_Init_initial static_table_def element_of_row_def
      example_externals_def)

lemma example_fields:
  "GetTypeOfDecl example_externals DD = DD"
  "ExportTypeCreate example_externals T = Some (ExportOther T)"
  "NormalizeType example_externals = example_NormalizeType"
  "PrimitiveCreate example_externals = example_PrimitiveCreate"
  "VectorCreate example_externals = example_VectorCreate"
  by (simp_all add: example_externals_def)

text \<open>
  Claim C1, as amended. When the canonical type of the declaration's type is of class
  \<^verbatim>\<open>Builtin\<close> or \<^verbatim>\<open>ExtVector\<close> and the walk along the typedef layers, outermost first,
  finds a first layer whose name is in the catalogue, \<^verbatim>\<open>CreateFromDecl\<close> returns what
  \<^verbatim>\<open>Create\<close> returns for the type node of that matched layer and the matched descriptor.
  The matched layer is one of the typedef nodes of the chain: the declaration's own node
  when the outermost name matches, and otherwise that node with the unmatched outer
  typedef layers removed.
\<close>

theorem CreateFromDecl_matched_layer:
  assumes "getTypeClass (GET_CANONICAL_TYPE (GetTypeOfDecl E DD)) = Builtin
           \<or> getTypeClass (GET_CANONICAL_TYPE (GetTypeOfDecl E DD)) = ExtVector"
    and "find (\<lambda>(d, L). ElementInfoMap (Init E s) d \<noteq> None)
           (typedef_layers (GetTypeOfDecl E DD)) = Some (d, L)"
  shows "CreateFromDecl E DD s = Create E L (ElementInfoMap (Init E s) d) s
         \<and> ElementInfoMap (Init E s) d \<noteq> None
         \<and> (d, L) \<in> set (typedef_layers (GetTypeOfDecl E DD))"
proof -
  have "CreateFromDecl E DD s = Create E L (ElementInfoMap (Init E s) d) s"
    by (simp only: CreateFromDecl_walk [OF assms(1)] assms(2) option.case prod.case)
  moreover have "ElementInfoMap (Init E s) d \<noteq> None"
    using assms(2) unfolding find_Some_iff by auto
  moreover have "(d, L) \<in> set (typedef_layers (GetTypeOfDecl E DD))"
    using assms(2) unfolding find_Some_iff by (auto simp: in_set_conv_nth)
  ultimately show ?thesis by simp
qed

theorem CreateFromDecl_matched_layer_witness:
  "fst (CreateFromDecl example_externals
          (TypedefType ''my_pixel'' (TypedefType ''rs_uchar'' (BuiltinType ''unsigned char'')))
          initial_state)
     = fst (Create example_externals (TypedefType ''rs_uchar'' (BuiltinType ''unsigned char''))
          (Some \<lparr>type = ''unsigned char'', normalized = True, vsize = 1\<rparr>) initial_state)
   \<and> fst (CreateFromDecl example_externals
          (TypedefType ''my_pixel'' (TypedefType ''rs_uchar'' (BuiltinType ''unsigned char'')))
          initial_state)
     = Inr (Some (ExportPrimitive
         \<lparr>getName = ''rs_uchar'', getType = ''unsigned char'', isNormalized = True\<rparr>))"
proof -
  let ?B = "TypedefType ''rs_uchar'' (BuiltinType ''unsigned char'')"
  let ?A = "TypedefType ''my_pixel'' ?B"
  have c: "getTypeClass (GET_CANONICAL_TYPE (GetTypeOfDecl example_externals ?A)) = Builtin
           \<or> getTypeClass (GET_CANONICAL_TYPE (GetTypeOfDecl example_externals ?A)) = ExtVector"
    by (simp add: example_fields)
  have f: "find (\<lambda>(d, L). ElementInfoMap (Init example_externals initial_state) d \<noteq> None)
             (typedef_layers (GetTypeOfDecl example_externals ?A)) = Some (''rs_uchar'', ?B)"
    by (simp add: example_fields example_catalogue)
  have "CreateFromDecl example_externals ?A initial_state
          = Create example_externals ?B
              (ElementInfoMap (Init example_externals initial_state) ''rs_uchar'') initial_state"
    using CreateFromDecl_matched_layer [OF c f] by simp
  then show ?thesis
    by (simp add: example_fields example_catalogue Create_switch example_NormalizeType_def
        example_PrimitiveCreate_def Create_primitive_def slangAssert_def)
qed

text \<open>
  Claim C1 as stated fails. With \<^verbatim>\<open>typedef unsigned char rs_uchar; typedef rs_uchar my_pixel;\<close>
  and only \<^verbatim>\<open>rs_uchar\<close> in the catalogue, the loop leaves \<^verbatim>\<open>T\<close> at the node of
  \<^verbatim>\<open>rs_uchar\<close>, and that node is what \<^verbatim>\<open>Create\<close> receives: the export type carries the
  name \<^verbatim>\<open>rs_uchar\<close>, where \<^verbatim>\<open>Create\<close> on the declaration's own node gives \<^verbatim>\<open>my_pixel\<close>.
  The first conjunct is the pair of \<^verbatim>\<open>T\<close> and \<^verbatim>\<open>EI\<close> the loop leaves behind.
\<close>

theorem CreateFromDecl_original_node_counterexample:
  "fst (typedef_chain example_externals
          (TypedefType ''my_pixel'' (TypedefType ''rs_uchar'' (BuiltinType ''unsigned char'')))
          (BuiltinType ''unsigned char'') initial_state)
     = (TypedefType ''rs_uchar'' (BuiltinType ''unsigned char''),
        Some \<lparr>type = ''unsigned char'', normalized = True, vsize = 1\<rparr>)
   \<and> fst (CreateFromDecl example_externals
          (TypedefType ''my_pixel'' (TypedefType ''rs_uchar'' (BuiltinType ''unsigned char'')))
          initial_state)
     = Inr (Some (ExportPrimitive
         \<lparr>getName = ''rs_uchar'', getType = ''unsigned char'', isNormalized = True\<rparr>))
   \<and> fst (Create example_externals
          (TypedefType ''my_pixel'' (TypedefType ''rs_uchar'' (BuiltinType ''unsigned char'')))
          (Some \<lparr>type = ''unsigned char'', normalized = True, vsize = 1\<rparr>)
          initial_state)
     = Inr (Some (ExportPrimitive
         \<lparr>getName = ''my_pixel'', getType = ''unsigned char'', isNormalized = True\<rparr>))
   \<and> fst (CreateFromDecl example_externals
          (TypedefType ''my_pixel'' (TypedefType ''rs_uchar'' (BuiltinType ''unsigned char'')))
          initial_state)
     \<noteq> fst (Create example_externals
          (TypedefType ''my_pixel'' (TypedefType ''rs_uchar'' (BuiltinType ''unsigned char'')))
          (Some \<lparr>type = ''unsigned char'', normalized = True, vsize = 1\<rparr>)
          initial_state)"
  by (simp add: typedef_chain_eq CreateFromDecl_walk example_fields example_catalogue
      Create_switch example_NormalizeType_def example_PrimitiveCreate_def Create_primitive_def
      slangAssert_def)

text \<open>
  Claim C2, as amended. When the canonical type is of class \<^verbatim>\<open>Builtin\<close>, \<^verbatim>\<open>Pointer\<close> or
  \<^verbatim>\<open>ExtVector\<close> and no typedef layer of the declaration's type has a name in the catalogue,
  \<^verbatim>\<open>CreateFromDecl\<close> returns the result of the generic builder. For \<^verbatim>\<open>Builtin\<close> and
  \<^verbatim>\<open>ExtVector\<close> the builder is applied to the node at which the walk stops, which is the
  declaration's type with its leading typedef layers removed (the declaration's own node
  only when that is not a typedef); for \<^verbatim>\<open>Pointer\<close> no walk is made and the builder is
  applied to the declaration's own node.
\<close>

theorem CreateFromDecl_unnamed:
  assumes "getTypeClass (GET_CANONICAL_TYPE (GetTypeOfDecl E DD)) = Builtin
           \<or> getTypeClass (GET_CANONICAL_TYPE (GetTypeOfDecl E DD)) = Pointer
           \<or> getTypeClass (GET_CANONICAL_TYPE (GetTypeOfDecl E DD)) = ExtVector"
    and "\<forall>(d, L) \<in> set (typedef_layers (GetTypeOfDecl E DD)). ElementInfoMap (Init E s) d = None"
  shows "fst (CreateFromDecl E DD s) =
           Inr (ExportTypeCreate E
             (if getTypeClass (GET_CANONICAL_TYPE (GetTypeOfDecl E DD)) = Pointer
              then GetTypeOfDecl E DD
              else strip_typedefs (GetTypeOfDecl E DD)))"
proof (cases "getTypeClass (GET_CANONICAL_TYPE (GetTypeOfDecl E DD)) = Pointer")
  case True
  then show ?thesis
    by (simp add: CreateFromDecl_def Let_def)
next
  case False
  with assms(1) have c: "getTypeClass (GET_CANONICAL_TYPE (GetTypeOfDecl E DD)) = Builtin
           \<or> getTypeClass (GET_CANONICAL_TYPE (GetTypeOfDecl E DD)) = ExtVector"
    by simp
  have "find (\<lambda>(d, L). ElementInfoMap (Init E s) d \<noteq> None)
          (typedef_layers (GetTypeOfDecl E DD)) = None"
    using assms(2) unfolding find_None_iff by auto
  then show ?thesis
    using False by (simp only: CreateFromDecl_walk [OF c] option.case fst_conv if_False)
qed

theorem CreateFromDecl_unnamed_witness:
  "ElementInfoMap (Init example_externals initial_state) ''my_float'' = None
   \<and> ElementInfoMap (Init example_externals initial_state) ''real'' = None
   \<and> fst (CreateFromDecl example_externals
          (TypedefType ''my_float'' (TypedefType ''real'' (ParenType (BuiltinType ''float''))))
          initial_state)
     = Inr (Some (ExportOther (ParenType (BuiltinType ''float''))))
   \<and> fst (CreateFromDecl example_externals
          (TypedefType ''int_ptr'' (PointerType (TypedefType ''rs_uchar'' (BuiltinType ''int''))))
          initial_state)
     = Inr (Some (ExportOther
         (TypedefType ''int_ptr'' (PointerType (TypedefType ''rs_uchar'' (BuiltinType ''int''))))))"
proof -
  let ?T = "TypedefType ''my_float'' (TypedefType ''real'' (ParenType (BuiltinType ''float'')))"
  let ?P = "TypedefType ''int_ptr'' (PointerType (TypedefType ''rs_uchar'' (BuiltinType ''int'')))"
  have c: "getTypeClass (GET_CANONICAL_TYPE (GetTypeOfDecl example_externals ?T)) = Builtin
           \<or> getTypeClass (GET_CANONICAL_TYPE (GetTypeOfDecl example_externals ?T)) = Pointer
           \<or> getTypeClass (GET_CANONICAL_TYPE (GetTypeOfDecl example_externals ?T)) = ExtVector"
    by (simp add: example_fields)
  have n: "\<forall>(d, L) \<in> set (typedef_layers (GetTypeOfDecl example_externals ?T)).
             ElementInfoMap (Init example_externals initial_state) d = None"
    by (simp add: example_fields example_catalogue)
  have cp: "getTypeClass (GET_CANONICAL_TYPE (GetTypeOfDecl example_externals ?P)) = Builtin
           \<or> getTypeClass (GET_CANONICAL_TYPE (GetTypeOfDecl example_externals ?P)) = Pointer
           \<or> getTypeClass (GET_CANONICAL_TYPE (GetTypeOfDecl example_externals ?P)) = ExtVector"
    by (simp add: example_fields)
  have np: "\<forall>(d, L) \<in> set (typedef_layers (GetTypeOfDecl example_externals ?P)).
             ElementInfoMap (Init example_externals initial_state) d = None"
    by (simp add: example_fields example_catalogue)
  have 1: "fst (CreateFromDecl example_externals ?T initial_state)
             = Inr (Some (ExportOther (ParenType (BuiltinType ''float''))))"
    using CreateFromDecl_unnamed [OF c n] by (simp add: example_fields)
  have 2: "fst (CreateFromDecl example_externals ?P initial_state) = Inr (Some (ExportOther ?P))"
    using CreateFromDecl_unnamed [OF cp np] by (simp add: example_fields)
  from 1 2 show ?thesis by (simp add: example_catalogue)
qed

text \<open>
  Claim C2 as stated fails. With \<^verbatim>\<open>typedef float my_float;\<close> and no \<^verbatim>\<open>my_float\<close> in the
  catalogue, the loop has moved \<^verbatim>\<open>T\<close> to the builtin node before the generic builder is
  called, so the builder sees \<^verbatim>\<open>float\<close>, not the declared \<^verbatim>\<open>my_float\<close> node.
  The first conjunct is the pair of \<^verbatim>\<open>T\<close> and \<^verbatim>\<open>EI\<close> the loop leaves behind.
\<close>

theorem CreateFromDecl_unnamed_counterexample:
  "fst (typedef_chain example_externals (TypedefType ''my_float'' (BuiltinType ''float''))
          (BuiltinType ''float'') initial_state)
     = (BuiltinType ''float'', None)
   \<and> getTypeClass (GET_CANONICAL_TYPE (GetTypeOfDecl example_externals
       (TypedefType ''my_float'' (BuiltinType ''float'')))) = Builtin
   \<and> ElementInfoMap (Init example_externals initial_state) ''my_float'' = None
   \<and> fst (CreateFromDecl example_externals (TypedefType ''my_float'' (BuiltinType ''float''))
          initial_state)
     = Inr (Some (ExportOther (BuiltinType ''float'')))
   \<and> ExportTypeCreate example_externals
        (GetTypeOfDecl example_externals (TypedefType ''my_float'' (BuiltinType ''float'')))
     = Some (ExportOther (TypedefType ''my_float'' (BuiltinType ''float'')))
   \<and> fst (CreateFromDecl example_externals (TypedefType ''my_float'' (BuiltinType ''float''))
          initial_state)
     \<noteq> Inr (ExportTypeCreate example_externals
          (GetTypeOfDecl example_externals (TypedefType ''my_float'' (BuiltinType ''float''))))"
  by (simp add: typedef_chain_eq CreateFromDecl_walk example_fields example_catalogue)

text \<open>
  Claim C3, as amended. For a declaration of type \<open>A\<close>, an alias of \<open>B\<close>, itself an
  alias of \<open>C\<close>, where the canonical type of \<open>C\<close> is of class \<^verbatim>\<open>Builtin\<close> or
  \<^verbatim>\<open>ExtVector\<close>, with \<open>B\<close> in the catalogue: whenever \<open>A\<close> is in the catalogue too,
  \<^verbatim>\<open>CreateFromDecl\<close> is \<^verbatim>\<open>Create\<close> with the descriptor of \<open>A\<close>, whatever the descriptor of
  \<open>B\<close> is; the descriptor of \<open>B\<close> is used only when \<open>A\<close> is not in the catalogue. The
  walk goes from the outside in and stops at the first name it finds.
\<close>

theorem CreateFromDecl_outer_alias_wins:
  assumes "GetTypeOfDecl E DD = TypedefType A (TypedefType B C)"
    and "getTypeClass (GET_CANONICAL_TYPE C) = Builtin
         \<or> getTypeClass (GET_CANONICAL_TYPE C) = ExtVector"
    and "ElementInfoMap (Init E s) B = Some EI_B"
  shows "(\<forall>EI_A. ElementInfoMap (Init E s) A = Some EI_A \<longrightarrow>
            CreateFromDecl E DD s = Create E (TypedefType A (TypedefType B C)) (Some EI_A) s)
         \<and> (ElementInfoMap (Init E s) A = None \<longrightarrow>
            CreateFromDecl E DD s = Create E (TypedefType B C) (Some EI_B) s)"
proof -
  have c: "getTypeClass (GET_CANONICAL_TYPE (GetTypeOfDecl E DD)) = Builtin
           \<or> getTypeClass (GET_CANONICAL_TYPE (GetTypeOfDecl E DD)) = ExtVector"
    using assms(1,2) by simp
  show ?thesis
    using assms(3) by (simp add: CreateFromDecl_walk [OF c] assms(1))
qed

theorem CreateFromDecl_outer_alias_wins_witness:
  "ElementInfoMap (Init example_externals initial_state) ''rs_pixel''
     = Some \<lparr>type = ''unsigned char'', normalized = False, vsize = 1\<rparr>
   \<and> ElementInfoMap (Init example_externals initial_state) ''rs_uchar''
     = Some \<lparr>type = ''unsigned char'', normalized = True, vsize = 1\<rparr>
   \<and> fst (CreateFromDecl example_externals
          (TypedefType ''rs_pixel'' (TypedefType ''rs_uchar'' (BuiltinType ''unsigned char'')))
          initial_state)
     = Inr (Some (ExportPrimitive
         \<lparr>getName = ''rs_pixel'', getType = ''unsigned char'', isNormalized = False\<rparr>))"
proof -
  let ?C = "BuiltinType ''unsigned char''"
  let ?A = "TypedefType ''rs_pixel'' (TypedefType ''rs_uchar'' ?C)"
  have t: "GetTypeOfDecl example_externals ?A = ?A"
    by (simp add: example_fields)
  have c: "getTypeClass (GET_CANONICAL_TYPE ?C) = Builtin
           \<or> getTypeClass (GET_CANONICAL_TYPE ?C) = ExtVector"
    by simp
  have a: "ElementInfoMap (Init example_externals initial_state) ''rs_pixel''
     = Some \<lparr>type = ''unsigned char'', normalized = False, vsize = 1\<rparr>"
    by (simp add: example_catalogue)
  have b: "ElementInfoMap (Init example_externals initial_state) ''rs_uchar''
     = Some \<lparr>type = ''unsigned char'', normalized = True, vsize = 1\<rparr>"
    by (simp add: example_catalogue)
  have "CreateFromDecl example_externals ?A initial_state
          = Create example_externals ?A
              (Some \<lparr>type = ''unsigned char'', normalized = False, vsize = 1\<rparr>) initial_state"
    using CreateFromDecl_outer_alias_wins [OF t c b, THEN conjunct1, rule_format, OF a] .
  then have "fst (CreateFromDecl example_externals ?A initial_state)
     = Inr (Some (ExportPrimitive
         \<lparr>getName = ''rs_pixel'', getType = ''unsigned char'', isNormalized = False\<rparr>))"
    by (simp add: example_fields Create_switch example_NormalizeType_def
        example_PrimitiveCreate_def Create_primitive_def slangAssert_def)
  with a b show ?thesis by simp
qed

text \<open>
  Claim C3 as stated fails: it speaks of every alias chain, and the walk is made only
  under the guard on the canonical class. With \<^verbatim>\<open>typedef int *rs_uchar; typedef rs_uchar rs_pixel;\<close>
  and both names in the catalogue with different descriptors, the canonical type is a
  pointer, so \<^verbatim>\<open>CreateFromDecl\<close> returns the generic builder's result on the declared node
  before any lookup: the state is left uninitialized, no descriptor is used, and the
  result is not that of \<^verbatim>\<open>Create\<close> with the descriptor of \<^verbatim>\<open>rs_pixel\<close>.
\<close>

theorem CreateFromDecl_outer_alias_pointer_counterexample:
  "ElementInfoMap (Init example_externals initial_state) ''rs_pixel''
     = Some \<lparr>type = ''unsigned char'', normalized = False, vsize = 1\<rparr>
   \<and> ElementInfoMap (Init example_externals initial_state) ''rs_uchar''
     = Some \<lparr>type = ''unsigned char'', normalized = True, vsize = 1\<rparr>
   \<and> getTypeClass (GET_CANONICAL_TYPE (GetTypeOfDecl example_externals
         (TypedefType ''rs_pixel'' (TypedefType ''rs_uchar'' (PointerType (BuiltinType ''int''))))))
     = Pointer
   \<and> CreateFromDecl example_externals
         (TypedefType ''rs_pixel'' (TypedefType ''rs_uchar'' (PointerType (BuiltinType ''int''))))
         initial_state
     = (Inr (Some (ExportOther
          (TypedefType ''rs_pixel'' (TypedefType ''rs_uchar'' (PointerType (BuiltinType ''int'')))))),
        initial_state)
   \<and> fst (CreateFromDecl example_externals
         (TypedefType ''rs_pixel'' (TypedefType ''rs_uchar'' (PointerType (BuiltinType ''int''))))
         initial_state)
     \<noteq> fst (Create example_externals
         (TypedefType ''rs_pixel'' (TypedefType ''rs_uchar'' (PointerType (BuiltinType ''int''))))
         (Some \<lparr>type = ''unsigned char'', normalized = False, vsize = 1\<rparr>)
         initial_state)
   \<and> \<not> Initialized (snd (CreateFromDecl example_externals
         (TypedefType ''rs_pixel'' (TypedefType ''rs_uchar'' (PointerType (BuiltinType ''int''))))
         (initial_state :: string state)))"
proof -
  let ?T = "TypedefType ''rs_pixel'' (TypedefType ''rs_uchar'' (PointerType (BuiltinType ''int'')))"
  have cfd: "CreateFromDecl example_externals ?T initial_state
               = (Inr (Some (ExportOther ?T)), initial_state)"
    by (simp add: CreateFromDecl_def Let_def example_fields)
  have cr: "fst (Create example_externals ?T
          (Some \<lparr>type = ''unsigned char'', normalized = False, vsize = 1\<rparr>) initial_state)
        = Inl NullDereference"
    by (simp add: Create_switch example_fields example_NormalizeType_def
        example_PrimitiveCreate_def Create_primitive_def slangAssert_def)
  have ni: "\<not> Initialized (initial_state :: string state)"
    by (simp add: initial_state_def)
  from cfd cr ni show ?thesis
    by (simp add: example_catalogue example_fields)
qed

text \<open>
  Claim C6. When the class of the canonical type is neither \<^verbatim>\<open>Builtin\<close> nor \<^verbatim>\<open>ExtVector\<close>
  (a pointer class included), \<^verbatim>\<open>CreateFromDecl\<close> returns the result of the generic builder
  on the declaration's type and leaves the state as it was: the catalogue is not looked
  up (a lookup would set \<^verbatim>\<open>Initialized\<close>), \<^verbatim>\<open>Create\<close> is not called, and the result does
  not depend on the catalogue.
\<close>

theorem CreateFromDecl_other_class:
  assumes "getTypeClass (GET_CANONICAL_TYPE (GetTypeOfDecl E DD)) \<noteq> Builtin"
    and "getTypeClass (GET_CANONICAL_TYPE (GetTypeOfDecl E DD)) \<noteq> ExtVector"
  shows "CreateFromDecl E DD s = (Inr (ExportTypeCreate E (GetTypeOfDecl E DD)), s)"
  using assms by (simp add: CreateFromDecl_def Let_def)

theorem CreateFromDecl_other_class_witness:
  "CreateFromDecl example_externals (TypedefType ''rs_uchar'' (RecordType ''S'')) initial_state
     = (Inr (Some (ExportOther (TypedefType ''rs_uchar'' (RecordType ''S'')))), initial_state)
   \<and> Initialized (snd (CreateFromDecl example_externals
         (TypedefType ''rs_uchar'' (RecordType ''S''))
         (initial_state :: string state))) = False"
proof -
  let ?T = "TypedefType ''rs_uchar'' (RecordType ''S'')"
  have 1: "getTypeClass (GET_CANONICAL_TYPE (GetTypeOfDecl example_externals ?T)) \<noteq> Builtin"
    by (simp add: example_fields)
  have 2: "getTypeClass (GET_CANONICAL_TYPE (GetTypeOfDecl example_externals ?T)) \<noteq> ExtVector"
    by (simp add: example_fields)
  show ?thesis
    using CreateFromDecl_other_class [OF 1 2, of initial_state]
    by (simp add: example_fields initial_state_def)
qed

end
